theory Spec2Isabelle
  imports Main
begin

section \<open>JavaScript values\<close>

text \<open>
  The values that reach \<^verbatim>\<open>generateSsg\<close>: \<^verbatim>\<open>undefined\<close>, numbers, strings, arrays
  and plain objects. A number is \<^verbatim>\<open>NaN\<close> or an integer (fractions and the infinities
  are left out). \<open>Obj kvs\<close> is the object the literal \<^verbatim>\<open>{ k1: v1, ..., kn: vn }\<close>
  builds: properties are defined from left to right, so a later binding of a key
  overrides an earlier one. \<open>Inherited name\<close> is the member of that name every plain
  object inherits from \<^verbatim>\<open>Object.prototype\<close>: a function, or for \<^verbatim>\<open>__proto__\<close> the
  prototype object itself.
\<close>

datatype jsnum = NaN | Fin int

datatype jsval =
    Undefined
  | Num jsnum
  | Str string
  | Arr "jsval list"
  | Obj "(string \<times> jsval) list"
  | Inherited string

fun typeof :: "jsval \<Rightarrow> string" where
  "typeof Undefined = ''undefined''"
| "typeof (Num n) = ''number''"
| "typeof (Str s) = ''string''"
| "typeof (Arr xs) = ''object''"
| "typeof (Obj kvs) = ''object''"
| "typeof (Inherited name) = (if name = ''__proto__'' then ''object'' else ''function'')"

text \<open>Truthiness of a number: \<^verbatim>\<open>NaN\<close> and \<^verbatim>\<open>0\<close> are falsy.\<close>

fun truthy :: "jsnum \<Rightarrow> bool" where
  "truthy NaN = False"
| "truthy (Fin i) = (i \<noteq> 0)"

text \<open>
  \<^verbatim>\<open>Number(v)\<close>. An array is converted through its string: the empty array and
  \<^verbatim>\<open>[undefined]\<close> give \<^verbatim>\<open>''\<close>, hence \<^verbatim>\<open>0\<close>; a one-element array converts as its
  element does; two or more elements give a string with a comma, hence \<^verbatim>\<open>NaN\<close>. An
  object or a function gives \<^verbatim>\<open>NaN\<close>. What \<^verbatim>\<open>Number\<close> makes of a string is the
  parameter \<open>sn\<close>.
\<close>

fun to_number :: "(string \<Rightarrow> jsnum) \<Rightarrow> jsval \<Rightarrow> jsnum" where
  "to_number sn Undefined = NaN"
| "to_number sn (Num n) = n"
| "to_number sn (Str s) = sn s"
| "to_number sn (Obj kvs) = NaN"
| "to_number sn (Inherited name) = NaN"
| "to_number sn (Arr []) = Fin 0"
| "to_number sn (Arr [Undefined]) = Fin 0"
| "to_number sn (Arr [x]) = to_number sn x"
| "to_number sn (Arr (x # y # zs)) = NaN"

text \<open>The comparisons \<^verbatim>\<open>x > k\<close> and \<^verbatim>\<open>x <= k\<close> of a number with a literal; both are false on \<^verbatim>\<open>NaN\<close>.\<close>

fun num_gt :: "jsnum \<Rightarrow> int \<Rightarrow> bool" where
  "num_gt NaN k = False"
| "num_gt (Fin i) k = (k < i)"

fun num_le :: "jsnum \<Rightarrow> int \<Rightarrow> bool" where
  "num_le NaN k = False"
| "num_le (Fin i) k = (i \<le> k)"

text \<open>Decimal digits of an array index, the property key of an element.\<close>

fun dec_nat :: "nat \<Rightarrow> string" where
  "dec_nat n =
     (if n < 10 then [''0123456789'' ! n]
      else dec_nat (n div 10) @ [''0123456789'' ! (n mod 10)])"

declare dec_nat.simps [simp del]

text \<open>
  The property names this program reads with a fixed name: \<^verbatim>\<open>cwd\<close>, \<^verbatim>\<open>port\<close>,
  \<^verbatim>\<open>wait\<close> and \<^verbatim>\<open>dir\<close> of the parameter, \<^verbatim>\<open>ssr\<close>, \<^verbatim>\<open>static\<close> and \<^verbatim>\<open>ssg\<close> of
  \<^verbatim>\<open>dir\<close>. None of them is a member of a built-in prototype, so on any value such a
  name reads the own property if there is one and \<^verbatim>\<open>undefined\<close> otherwise.
\<close>

datatype key = K_cwd | K_port | K_wait | K_dir | K_ssr | K_static | K_ssg

fun key_name :: "key \<Rightarrow> string" where
  "key_name K_cwd = ''cwd''"
| "key_name K_port = ''port''"
| "key_name K_wait = ''wait''"
| "key_name K_dir = ''dir''"
| "key_name K_ssr = ''ssr''"
| "key_name K_static = ''static''"
| "key_name K_ssg = ''ssg''"

text \<open>
  \<open>get_prop v k\<close> is the read \<^verbatim>\<open>v.k\<close> of one of these names on a value that is not
  \<^verbatim>\<open>undefined\<close>; \<open>elem\<close> is the indexed read \<^verbatim>\<open>v[i]\<close>.
\<close>

fun get_prop :: "jsval \<Rightarrow> key \<Rightarrow> jsval" where
  "get_prop (Obj kvs) k =
     (case map_of (rev kvs) (key_name k) of None \<Rightarrow> Undefined | Some v \<Rightarrow> v)"
| "get_prop v k = Undefined"

fun elem :: "jsval \<Rightarrow> nat \<Rightarrow> jsval" where
  "elem (Arr xs) i = (if i < length xs then xs ! i else Undefined)"
| "elem (Str s) i = (if i < length s then Str [s ! i] else Undefined)"
| "elem (Obj kvs) i =
     (case map_of (rev kvs) (dec_nat i) of None \<Rightarrow> Undefined | Some v \<Rightarrow> v)"
| "elem v i = Undefined"

text \<open>
  The read \<^verbatim>\<open>{ k1: v1, ..., kn: vn }[name]\<close> of an object literal by a computed
  name, which may be any string: the own property, else the member inherited from
  \<^verbatim>\<open>Object.prototype\<close>, else \<^verbatim>\<open>undefined\<close>.
\<close>

definition object_prototype_names :: "string list" where
  "object_prototype_names =
     [''constructor'', ''__proto__'', ''hasOwnProperty'', ''isPrototypeOf'',
      ''propertyIsEnumerable'', ''toLocaleString'', ''toString'', ''valueOf'',
      ''__defineGetter__'', ''__defineSetter__'', ''__lookupGetter__'',
      ''__lookupSetter__'']"

definition computed_get :: "(string \<times> jsval) list \<Rightarrow> string \<Rightarrow> jsval" where
  "computed_get kvs name =
     (case map_of (rev kvs) name of
        Some v \<Rightarrow> v
      | None \<Rightarrow> (if name \<in> set object_prototype_names then Inherited name else Undefined))"

text \<open>The own enumerable properties an object spread \<^verbatim>\<open>...v\<close> copies, in order.\<close>

fun own_props :: "jsval \<Rightarrow> (string \<times> jsval) list" where
  "own_props (Obj kvs) = kvs"
| "own_props (Arr xs) = map (\<lambda>(i, x). (dec_nat i, x)) (enumerate 0 xs)"
| "own_props (Str s) = map (\<lambda>(i, c). (dec_nat i, Str [c])) (enumerate 0 s)"
| "own_props v = []"

section \<open>The outside world\<close>

text \<open>
  Everything the module reads from its surroundings or gets back from a library is a
  field of the world: the process (\<^verbatim>\<open>process.cwd()\<close>, the module constant \<^verbatim>\<open>envPort\<close>
  \<^verbatim>\<open>= Number(process.env.PORT)\<close>), \<^verbatim>\<open>Number\<close> on strings, the results of
  \<^verbatim>\<open>fs-extra\<close>, \<^verbatim>\<open>portfinder\<close>, \<^verbatim>\<open>child_process.spawn\<close> and \<^verbatim>\<open>axios\<close>, and the chunks
  the child's standard output delivers to a \<^verbatim>\<open>'data'\<close> listener. A promise that
  rejects is \<open>None\<close> or \<open>False\<close>; \<open>spawn_returns\<close> is false when \<^verbatim>\<open>spawn\<close> throws on
  its arguments instead of returning a handle. \<open>axios_get w i\<close> and \<open>outputFile w i\<close>
  are the outcomes of the \<open>i\<close>-th request of the run and of the write that follows it.
\<close>

record world =
  process_cwd :: string
  envPort :: jsnum
  str_number :: "string \<Rightarrow> jsnum"
  pathExists :: "jsval \<Rightarrow> bool"
  ensureDir :: "jsval \<Rightarrow> bool"
  getPort :: "(jsval \<times> jsval) option \<Rightarrow> jsnum option"
  spawn_returns :: "jsval \<Rightarrow> jsval \<Rightarrow> jsval \<Rightarrow> jsval \<Rightarrow> bool"
  stdout_chunks :: "string list"
  axios_get :: "nat \<Rightarrow> string option"
  outputFile :: "nat \<Rightarrow> bool"

section \<open>Parameters\<close>

text \<open>\<^verbatim>\<open>defaultParam\<close>, lines 36 to 45.\<close>

definition defaultParam :: "world \<Rightarrow> (string \<times> jsval) list" where
  "defaultParam w =
     [(''cwd'', Str (process_cwd w)),
      (''port'', Undefined),
      (''wait'', Str ''stdout''),
      (''dir'', Obj [(''ssr'', Str ''dist/ssr''),
                    (''static'', Str ''dist/ssr/www''),
                    (''ssg'', Str ''dist/ssg'')])]"

text \<open>
  The argument \<^verbatim>\<open>generateSsg\<close> passes on, lines 51 to 54:
  \<^verbatim>\<open>{ ...defaultParam, ...parObj }\<close>.
\<close>

definition merged_params :: "world \<Rightarrow> jsval \<Rightarrow> jsval" where
  "merged_params w parObj = Obj (own_props (Obj (defaultParam w)) @ own_props parObj)"

section \<open>Effects\<close>

text \<open>
  A run is observed through the calls it makes, in order. \<open>Started c\<close>: the library
  call \<open>c\<close> is made and returns a pending promise. \<open>Fulfilled c\<close> and \<open>Rejected c\<close>:
  that promise has settled and the code waiting on it (an \<^verbatim>\<open>await\<close> or a \<^verbatim>\<open>then\<close>
  callback) runs, or, for a promise nothing waits on, the rejection is left unhandled.
  \<open>Get port\<close> is the request \<^verbatim>\<open>get(`http://127.0.0.1:${port}/`)\<close>, and
  \<open>OutputFile path data\<close> the write \<^verbatim>\<open>outputFile(path, data)\<close>.
\<close>

datatype call =
    PathExists jsval
  | EnsureDir jsval
  | EmptyDir jsval
  | Copy jsval jsval
  | GetPort "(jsval \<times> jsval) option"
  | Get jsval
  | OutputFile string string

datatype error =
    TypeError string
  | Error string
  | SpawnError
  | Failure call

datatype outcome = Resolve | Reject error

text \<open>
  The four assertions of \<^verbatim>\<open>_generateSsg\<close>, by their messages. \<^verbatim>\<open>assert\<close> is imported
  from \<^verbatim>\<open>console\<close> (line 12): on a falsy value it prints \<^verbatim>\<open>Assertion failed\<close> with the
  message and returns; it does not throw.
\<close>

datatype assertion =
    SSR_dist_path_does_not_exist
  | No_available_ports
  | Invalid_String_parameter
  | Invalid_Number_parameter

text \<open>
  The other events: a failed \<^verbatim>\<open>console.assert\<close>; \<open>Spawn cwd ssrDir port stdout\<close>, the
  child process \<^verbatim>\<open>spawnSrv(cwd, ssrDir, port, stdout)\<close> creates; \<open>On name\<close>, the listener
  registered by \<^verbatim>\<open>srvProc.stdout.on(name, ...)\<close>; \<open>SetTimeout ms\<close>, the timer set by
  \<^verbatim>\<open>setTimeout(..., ms)\<close>; \<open>Kill\<close>, the call \<^verbatim>\<open>srvProc.kill()\<close>; \<open>Return r\<close>, the
  promise of \<^verbatim>\<open>_generateSsg\<close> settling as \<open>r\<close>.
\<close>

datatype event =
    Started call
  | Fulfilled call
  | Rejected call
  | AssertionFailed assertion
  | Spawn jsval jsval jsval jsval
  | On jsval
  | SetTimeout jsnum
  | Kill
  | Return outcome

text \<open>
  A piece of the program: the events it performs, and the exception it throws
  (\<open>Inl\<close>) or the value it yields.
\<close>

type_synonym 'a step = "event list \<times> (error + 'a)"

definition ret :: "'a \<Rightarrow> 'a step" where
  "ret x = ([], Inr x)"

definition emit :: "event list \<Rightarrow> unit step" where
  "emit es = (es, Inr ())"

definition throw :: "error \<Rightarrow> 'a step" where
  "throw e = ([], Inl e)"

definition and_then :: "'a step \<Rightarrow> ('a \<Rightarrow> 'b step) \<Rightarrow> 'b step" where
  "and_then m f =
     (case m of
        (es, Inl e) \<Rightarrow> (es, Inl e)
      | (es, Inr x) \<Rightarrow> (case f x of (es', r) \<Rightarrow> (es @ es', r)))"

text \<open>Waiting for a started call: resumes with its value, or throws its rejection.\<close>

definition settle :: "call \<Rightarrow> 'a option \<Rightarrow> 'a step" where
  "settle c r =
     (case r of
        None \<Rightarrow> ([Rejected c], Inl (Failure c))
      | Some x \<Rightarrow> ([Fulfilled c], Inr x))"

definition await :: "call \<Rightarrow> 'a option \<Rightarrow> 'a step" where
  "await c r = and_then (emit [Started c]) (\<lambda>_. settle c r)"

definition console_assert :: "bool \<Rightarrow> assertion \<Rightarrow> unit step" where
  "console_assert b a = (if b then ret () else emit [AssertionFailed a])"

text \<open>The read \<^verbatim>\<open>v.k\<close>, which throws on \<^verbatim>\<open>undefined\<close>.\<close>

definition member :: "jsval \<Rightarrow> key \<Rightarrow> jsval step" where
  "member v k =
     (if v = Undefined then throw (TypeError ''Cannot read property of undefined'')
      else ret (get_prop v k))"

section \<open>The orchestrator\<close>

text \<open>
  Lines 64 to 66: \<^verbatim>\<open>assert(await pathExists(dir.ssr), ...)\<close>. \<^verbatim>\<open>pathExists\<close> never
  rejects.
\<close>

definition check_ssr :: "world \<Rightarrow> jsval \<Rightarrow> unit step" where
  "check_ssr w dir =
     and_then (member dir K_ssr) (\<lambda>ssr.
     and_then (await (PathExists ssr) (Some (pathExists w ssr))) (\<lambda>found.
     console_assert found SSR_dist_path_does_not_exist))"

text \<open>
  Lines 68 to 70:
  \<^verbatim>\<open>await ensureDir(dir.ssg).then(emptyDir(dir.ssg)).then(copy(dir.static, dir.ssg))\<close>.
  The arguments of the two \<^verbatim>\<open>then\<close> are calls, evaluated at once: \<^verbatim>\<open>emptyDir\<close> and
  \<^verbatim>\<open>copy\<close> are started while \<^verbatim>\<open>ensureDir\<close> is pending, and the promises they return,
  not being functions, are ignored by \<^verbatim>\<open>then\<close>. The awaited promise settles as that of
  \<^verbatim>\<open>ensureDir\<close> does. (\<open>dir\<close> is not \<^verbatim>\<open>undefined\<close> here: line 64 has read \<^verbatim>\<open>dir.ssr\<close>.)
\<close>

definition prepare_output :: "world \<Rightarrow> jsval \<Rightarrow> unit step" where
  "prepare_output w dir =
     and_then (emit [Started (EnsureDir (get_prop dir K_ssg))]) (\<lambda>_.
     and_then (emit [Started (EmptyDir (get_prop dir K_ssg))]) (\<lambda>_.
     and_then (emit [Started (Copy (get_prop dir K_static) (get_prop dir K_ssg))]) (\<lambda>_.
     settle (EnsureDir (get_prop dir K_ssg))
       (if ensureDir w (get_prop dir K_ssg) then Some () else None))))"

text \<open>Lines 72 to 80: the port.\<close>

definition resolve_port :: "world \<Rightarrow> jsval \<Rightarrow> jsval step" where
  "resolve_port w port =
     (if \<not> truthy (to_number (str_number w) port) then
        if truthy (envPort w) then ret (Num (envPort w))
        else if typeof port = typeof (Arr []) then
          and_then (await (GetPort (Some (elem port 0, elem port 1)))
                          (getPort w (Some (elem port 0, elem port 1))))
            (\<lambda>p. ret (Num p))
        else
          and_then (await (GetPort None) (getPort w None)) (\<lambda>p. ret (Num p))
      else ret port)"

text \<open>Lines 82 to 84: \<^verbatim>\<open>assert(port > 0 && port <= 65535, ...)\<close>.\<close>

definition check_port :: "world \<Rightarrow> jsval \<Rightarrow> unit step" where
  "check_port w port =
     console_assert
       (num_gt (to_number (str_number w) port) 0 \<and> num_le (to_number (str_number w) port) 65535)
       No_available_ports"

text \<open>
  \<^verbatim>\<open>spawnSrv\<close>, lines 124 to 133. The handle keeps the \<^verbatim>\<open>stdio\<close> entry of the child's
  standard output: \<^verbatim>\<open>srvProc.stdout\<close> is a stream when that entry is \<^verbatim>\<open>'pipe'\<close> (or
  \<^verbatim>\<open>undefined\<close>, which means \<^verbatim>\<open>'pipe'\<close>), and \<^verbatim>\<open>null\<close> otherwise. \<^verbatim>\<open>spawn\<close> throws
  on a \<^verbatim>\<open>stdio\<close> entry that is a function or a plain object.
\<close>

datatype child = Child jsval

definition spawnSrv :: "world \<Rightarrow> jsval \<Rightarrow> jsval \<Rightarrow> jsval \<Rightarrow> jsval \<Rightarrow> child step" where
  "spawnSrv w cwd ssrDir port stdout =
     (case stdout of
        Inherited name \<Rightarrow> throw (TypeError ''The argument stdio is invalid'')
      | _ \<Rightarrow>
          (if spawn_returns w cwd ssrDir port stdout
           then and_then (emit [Spawn cwd ssrDir port stdout]) (\<lambda>_. ret (Child stdout))
           else throw SpawnError))"

fun has_stdout :: "child \<Rightarrow> bool" where
  "has_stdout (Child stdio) = (stdio = Str ''pipe'' \<or> stdio = Undefined)"

text \<open>
  \<^verbatim>\<open>srvProc.stdout.on(name, handler)\<close>: throws when \<^verbatim>\<open>srvProc.stdout\<close> is \<^verbatim>\<open>null\<close>.
\<close>

definition stdout_on :: "child \<Rightarrow> jsval \<Rightarrow> unit step" where
  "stdout_on srvProc name =
     (if has_stdout srvProc then emit [On name]
      else throw (TypeError ''Cannot read property on of null''))"

text \<open>
  What is left registered when \<^verbatim>\<open>_generateSsg\<close> returns: a listener on the child's
  standard output for the named event, or a timer; each holds the handler, which closes
  over the port.
\<close>

datatype watcher = Listener jsval jsval | Timer jsnum jsval

text \<open>
  Lines 86 to 113: the wait strategy. \<^verbatim>\<open>typeof wait === 'string'\<close> is the case
  \<open>Str s\<close>, \<^verbatim>\<open>typeof wait === 'number'\<close> the case \<open>Num n\<close>. The two lookups
  \<^verbatim>\<open>{ stdout: 'pipe', ipc: 'ipc' }[wait]\<close> and \<^verbatim>\<open>{ stdout: 'data', ipc: 'message' }[wait]\<close>
  are reads by a computed name.
\<close>

definition start_server :: "world \<Rightarrow> jsval \<Rightarrow> jsval \<Rightarrow> jsval \<Rightarrow> jsval \<Rightarrow> watcher step" where
  "start_server w cwd ssr port wait =
     (case wait of
        Str s \<Rightarrow>
          and_then (console_assert (s \<in> set [''stdout'', ''ipc'']) Invalid_String_parameter) (\<lambda>_.
          and_then (spawnSrv w cwd ssr port
                      (computed_get [(''stdout'', Str ''pipe''), (''ipc'', Str ''ipc'')] s))
            (\<lambda>srvProc.
          and_then (stdout_on srvProc
                      (computed_get [(''stdout'', Str ''data''), (''ipc'', Str ''message'')] s))
            (\<lambda>_.
          ret (Listener
                 (computed_get [(''stdout'', Str ''data''), (''ipc'', Str ''message'')] s)
                 port))))
      | Num n \<Rightarrow>
          and_then (console_assert (num_gt n 0) Invalid_Number_parameter) (\<lambda>_.
          and_then (spawnSrv w cwd ssr port (Str ''ignore'')) (\<lambda>srvProc.
          and_then (emit [SetTimeout n]) (\<lambda>_.
          ret (Timer n port))))
      | _ \<Rightarrow> throw (Error ''Invalid parameters''))"

text \<open>
  The body of \<^verbatim>\<open>_generateSsg\<close>, lines 64 to 113, on the destructured parameter
  \<^verbatim>\<open>{ cwd, port, wait, dir }\<close>.
\<close>

definition generateSsg_body :: "world \<Rightarrow> jsval \<Rightarrow> watcher step" where
  "generateSsg_body w par =
     and_then (check_ssr w (get_prop par K_dir)) (\<lambda>_.
     and_then (prepare_output w (get_prop par K_dir)) (\<lambda>_.
     and_then (resolve_port w (get_prop par K_port)) (\<lambda>port.
     and_then (check_port w port) (\<lambda>_.
     start_server w (get_prop par K_cwd) (get_prop (get_prop par K_dir) K_ssr) port
       (get_prop par K_wait)))))"

text \<open>
  \<^verbatim>\<open>_generateSsg\<close>, lines 63 to 114, an \<^verbatim>\<open>async\<close> function: the promise it returns
  (rejected when the body throws), the events up to the moment that promise settles,
  and the watcher the body leaves registered. Its parameter defaults to
  \<^verbatim>\<open>defaultParam\<close>.
\<close>

record settled =
  promise :: outcome
  events :: "event list"
  armed :: "watcher option"

definition internal_generateSsg :: "world \<Rightarrow> jsval \<Rightarrow> settled" where
  "internal_generateSsg w arg =
     (case generateSsg_body w (if arg = Undefined then Obj (defaultParam w) else arg) of
        (es, Inl e) \<Rightarrow> \<lparr>promise = Reject e, events = es, armed = None\<rparr>
      | (es, Inr wt) \<Rightarrow> \<lparr>promise = Resolve, events = es, armed = Some wt\<rparr>)"

text \<open>\<^verbatim>\<open>generateSsg\<close>, lines 50 to 55.\<close>

definition generateSsg :: "world \<Rightarrow> jsval \<Rightarrow> settled" where
  "generateSsg w parObj = internal_generateSsg w (merged_params w parObj)"

section \<open>After the promise has settled\<close>

text \<open>
  \<^verbatim>\<open>captureIndex\<close>, lines 141 to 143, as the \<open>i\<close>-th request of the run. The \<^verbatim>\<open>then\<close>
  callback calls \<^verbatim>\<open>outputFile('dist/ssg/index.html', data)\<close> and drops the promise, so
  \<^verbatim>\<open>captureIndex\<close> resolves as soon as the write is started.
\<close>

definition captureIndex :: "world \<Rightarrow> jsval \<Rightarrow> nat \<Rightarrow> unit step" where
  "captureIndex w port i =
     and_then (await (Get port) (axios_get w i)) (\<lambda>data.
     emit [Started (OutputFile ''dist/ssg/index.html'' data)])"

text \<open>
  The handler, lines 95 to 98 and 107 to 110:
  \<^verbatim>\<open>async () => { await captureIndex(port); srvProc.kill(); }\<close>. Nothing waits on the
  promise it returns: a rejection of \<^verbatim>\<open>captureIndex\<close> ends the handler before
  \<^verbatim>\<open>srvProc.kill()\<close> and is left unhandled.
\<close>

definition handler :: "world \<Rightarrow> jsval \<Rightarrow> nat \<Rightarrow> unit step" where
  "handler w port i = and_then (captureIndex w port i) (\<lambda>_. emit [Kill])"

text \<open>The write of the \<open>i\<close>-th capture settles later, unobserved.\<close>

definition write_settles :: "world \<Rightarrow> nat \<Rightarrow> event list" where
  "write_settles w i =
     (case axios_get w i of
        None \<Rightarrow> []
      | Some data \<Rightarrow>
          [if outputFile w i then Fulfilled (OutputFile ''dist/ssg/index.html'' data)
           else Rejected (OutputFile ''dist/ssg/index.html'' data)])"

text \<open>Everything the \<open>i\<close>-th firing of the watcher adds to the trace.\<close>

definition firing :: "world \<Rightarrow> jsval \<Rightarrow> nat \<Rightarrow> event list" where
  "firing w port i = fst (handler w port i) @ write_settles w i"

text \<open>
  How often the event loop calls the handler: once per chunk for a \<^verbatim>\<open>'data'\<close> listener
  on the child's standard output (\<^verbatim>\<open>on\<close>, not \<^verbatim>\<open>once\<close>), never for a listener on
  another name, which that stream does not emit, once for a timer.
\<close>

fun firings :: "world \<Rightarrow> watcher option \<Rightarrow> nat" where
  "firings w None = 0"
| "firings w (Some (Listener name port)) =
     (if name = Str ''data'' then length (stdout_chunks w) else 0)"
| "firings w (Some (Timer ms port)) = 1"

fun handler_port :: "watcher option \<Rightarrow> jsval" where
  "handler_port None = Undefined"
| "handler_port (Some (Listener name port)) = port"
| "handler_port (Some (Timer ms port)) = port"

definition callbacks :: "world \<Rightarrow> watcher option \<Rightarrow> event list" where
  "callbacks w a = concat (map (firing w (handler_port a)) [0..<firings w a])"

text \<open>
  The whole run of \<^verbatim>\<open>generateSsg(parObj)\<close>: the events before its promise settles, the
  settlement, and the handler's events after it. Handlers are listed one after the
  other, in the order of their requests.
\<close>

definition run_trace :: "world \<Rightarrow> jsval \<Rightarrow> event list" where
  "run_trace w parObj =
     events (generateSsg w parObj) @ [Return (promise (generateSsg w parObj))]
       @ callbacks w (armed (generateSsg w parObj))"

section \<open>Example worlds\<close>

text \<open>
  A build machine where everything is in place: the SSR directory exists, the port
  finder answers 8000, the server prints one line and serves its page. \<^verbatim>\<open>PORT\<close> is
  not set, so \<^verbatim>\<open>envPort\<close> is \<^verbatim>\<open>NaN\<close>. No example below converts a string to a
  number, so \<open>str_number\<close> is never consulted; it is set to answer \<^verbatim>\<open>NaN\<close>.
\<close>

definition good_world :: world where
  "good_world =
     \<lparr>process_cwd = ''/app'',
      envPort = NaN,
      str_number = (\<lambda>s. NaN),
      pathExists = (\<lambda>p. True),
      ensureDir = (\<lambda>p. True),
      getPort = (\<lambda>r. Some (Fin 8000)),
      spawn_returns = (\<lambda>cwd ssr port stdio. True),
      stdout_chunks = [''listening''],
      axios_get = (\<lambda>i. Some ''<html></html>''),
      outputFile = (\<lambda>i. True)\<rparr>"

text \<open>The same machine with \<^verbatim>\<open>PORT=8080\<close> in the environment.\<close>

definition env_world :: world where
  "env_world = good_world\<lparr>envPort := Fin 8080\<rparr>"

text \<open>The same machine with a server that refuses every request.\<close>

definition refusing_world :: world where
  "refusing_world = good_world\<lparr>axios_get := (\<lambda>i. None)\<rparr>"

text \<open>
  A machine where \<^verbatim>\<open>dist/ssr\<close> is the only path that exists and the child prints
  nothing.
\<close>

definition silent_world :: world where
  "silent_world =
     good_world\<lparr>pathExists := (\<lambda>p. p = Str ''dist/ssr''), stdout_chunks := []\<rparr>"

section \<open>Notions used in the proofs\<close>

text \<open>The events only a handler performs: the request, the write and the kill.\<close>

fun handler_event :: "event \<Rightarrow> bool" where
  "handler_event Kill = True"
| "handler_event (Started (Get p)) = True"
| "handler_event (Fulfilled (Get p)) = True"
| "handler_event (Rejected (Get p)) = True"
| "handler_event (Started (OutputFile f d)) = True"
| "handler_event (Fulfilled (OutputFile f d)) = True"
| "handler_event (Rejected (OutputFile f d)) = True"
| "handler_event e = False"

definition quiet :: "'a step \<Rightarrow> bool" where
  "quiet m = (\<not> list_ex handler_event (fst m))"

text \<open>An HTTP request being issued.\<close>

fun is_request :: "event \<Rightarrow> bool" where
  "is_request (Started (Get p)) = True"
| "is_request e = False"

section \<open>Lemmas\<close>

lemmas step_defs =
  ret_def emit_def throw_def and_then_def settle_def await_def console_assert_def member_def

lemmas body_defs =
  computed_get_def check_ssr_def prepare_output_def resolve_port_def check_port_def spawnSrv_def
  stdout_on_def start_server_def generateSsg_body_def internal_generateSsg_def
  generateSsg_def merged_params_def defaultParam_def

lemmas handler_defs =
  captureIndex_def handler_def write_settles_def firing_def callbacks_def run_trace_def

lemma get_prop_append:
  "get_prop (Obj (xs @ ys)) k =
     (case map_of (rev ys) (key_name k) of None \<Rightarrow> get_prop (Obj xs) k | Some v \<Rightarrow> v)"
  by (simp add: map_add_def split: option.splits)

subsection \<open>The body performs no handler event\<close>

lemma quiet_ret: "quiet (ret x)"
  by (simp add: quiet_def ret_def)

lemma quiet_throw: "quiet (throw e)"
  by (simp add: quiet_def throw_def)

lemma quiet_emit: "\<not> list_ex handler_event es \<Longrightarrow> quiet (emit es)"
  by (simp add: quiet_def emit_def)

lemma quiet_and_then:
  assumes m: "quiet m" and f: "\<And>x. quiet (f x)"
  shows "quiet (and_then m f)"
proof (cases m)
  case (Pair es r)
  show ?thesis
  proof (cases r)
    case (Inl e)
    with Pair m show ?thesis by (simp add: quiet_def and_then_def)
  next
    case (Inr x)
    obtain es' r' where fx: "f x = (es', r')" by (cases "f x")
    with f[of x] have "\<not> list_ex handler_event es'" by (simp add: quiet_def)
    with Pair Inr m fx show ?thesis by (simp add: quiet_def and_then_def)
  qed
qed

lemma quiet_settle:
  "\<not> handler_event (Fulfilled c) \<Longrightarrow> \<not> handler_event (Rejected c) \<Longrightarrow> quiet (settle c r)"
  by (simp add: quiet_def settle_def split: option.splits)

lemma quiet_await:
  "\<not> handler_event (Started c) \<Longrightarrow> \<not> handler_event (Fulfilled c) \<Longrightarrow>
   \<not> handler_event (Rejected c) \<Longrightarrow> quiet (await c r)"
  by (simp add: await_def quiet_and_then quiet_emit quiet_settle)

lemma quiet_console_assert: "quiet (console_assert b a)"
  by (simp add: console_assert_def quiet_ret quiet_emit)

lemma quiet_member: "quiet (member v k)"
  by (simp add: member_def quiet_ret quiet_throw)

lemma quiet_check_ssr: "quiet (check_ssr w dir)"
  by (simp add: check_ssr_def quiet_and_then quiet_member quiet_await quiet_console_assert)

lemma quiet_prepare_output: "quiet (prepare_output w dir)"
  by (simp add: prepare_output_def quiet_and_then quiet_emit quiet_settle)

lemma quiet_resolve_port: "quiet (resolve_port w port)"
  by (simp add: resolve_port_def quiet_and_then quiet_ret quiet_await)

lemma quiet_check_port: "quiet (check_port w port)"
  by (simp add: check_port_def quiet_console_assert)

lemma quiet_spawnSrv: "quiet (spawnSrv w cwd ssr port stdio)"
  by (cases stdio)
     (simp_all add: spawnSrv_def quiet_and_then quiet_emit quiet_ret quiet_throw)

lemma quiet_stdout_on: "quiet (stdout_on c name)"
  by (simp add: stdout_on_def quiet_emit quiet_throw)

lemma quiet_start_server: "quiet (start_server w cwd ssr port wait)"
  by (cases wait)
     (simp_all add: start_server_def quiet_and_then quiet_console_assert quiet_spawnSrv
        quiet_stdout_on quiet_emit quiet_ret quiet_throw)

lemma quiet_body: "quiet (generateSsg_body w par)"
  by (simp add: generateSsg_body_def quiet_and_then quiet_check_ssr quiet_prepare_output
        quiet_resolve_port quiet_check_port quiet_start_server)

lemma generateSsg_cases:
  obtains (rejected) es e where
      "generateSsg_body w (merged_params w parObj) = (es, Inl e)"
      "generateSsg w parObj = \<lparr>promise = Reject e, events = es, armed = None\<rparr>"
    | (resolved) es wt where
      "generateSsg_body w (merged_params w parObj) = (es, Inr wt)"
      "generateSsg w parObj = \<lparr>promise = Resolve, events = es, armed = Some wt\<rparr>"
proof (cases "generateSsg_body w (merged_params w parObj)")
  case (Pair es r)
  show ?thesis
  proof (cases r)
    case (Inl e)
    with Pair show ?thesis
      by (intro rejected[of es e]) (simp_all add: generateSsg_def internal_generateSsg_def merged_params_def)
  next
    case (Inr wt)
    with Pair show ?thesis
      by (intro resolved[of es wt]) (simp_all add: generateSsg_def internal_generateSsg_def merged_params_def)
  qed
qed

lemma events_quiet: "\<not> list_ex handler_event (events (generateSsg w parObj))"
proof (cases rule: generateSsg_cases[of w parObj])
  case (rejected es e)
  with quiet_body[of w "merged_params w parObj"] show ?thesis by (simp add: quiet_def)
next
  case (resolved es wt)
  with quiet_body[of w "merged_params w parObj"] show ?thesis by (simp add: quiet_def)
qed

lemma armed_iff_resolved:
  "(armed (generateSsg w parObj) \<noteq> None) = (promise (generateSsg w parObj) = Resolve)"
  by (cases rule: generateSsg_cases[of w parObj]) simp_all

lemma handler_event_in_trace:
  assumes "handler_event e"
  shows "(e \<in> set (run_trace w parObj)) = (e \<in> set (callbacks w (armed (generateSsg w parObj))))"
proof -
  from events_quiet[of w parObj] assms have "e \<notin> set (events (generateSsg w parObj))"
    by (auto simp: list_ex_iff)
  moreover from assms have "e \<noteq> Return (promise (generateSsg w parObj))" by auto
  ultimately show ?thesis by (simp add: run_trace_def)
qed

subsection \<open>What the handlers add\<close>

lemma firing_eq:
  "firing w port i =
     (case axios_get w i of
        None \<Rightarrow> [Started (Get port), Rejected (Get port)]
      | Some data \<Rightarrow>
          [Started (Get port), Fulfilled (Get port),
           Started (OutputFile ''dist/ssg/index.html'' data), Kill,
           if outputFile w i then Fulfilled (OutputFile ''dist/ssg/index.html'' data)
           else Rejected (OutputFile ''dist/ssg/index.html'' data)])"
  by (simp add: firing_def handler_def captureIndex_def write_settles_def step_defs
        split: option.splits)

lemma kill_in_firing: "(Kill \<in> set (firing w port i)) = (axios_get w i \<noteq> None)"
  by (simp add: firing_eq split: option.splits)

lemma kill_in_callbacks:
  "(Kill \<in> set (callbacks w a)) = (\<exists>i<firings w a. axios_get w i \<noteq> None)"
  by (auto simp: callbacks_def kill_in_firing)

lemma requests_of_firing: "length (filter is_request (firing w port i)) = 1"
  by (simp add: firing_eq split: option.splits)

lemma kills_of_firing:
  "count_list (firing w port i) Kill = (if axios_get w i = None then 0 else 1)"
  by (simp add: firing_eq split: option.splits)

lemma requests_of_firings:
  "length (filter is_request (concat (map (firing w port) [0..<n]))) = n"
  by (induction n) (simp_all add: requests_of_firing)

lemma kills_of_firings:
  "count_list (concat (map (firing w port) [0..<n])) Kill
     = length (filter (\<lambda>i. axios_get w i \<noteq> None) [0..<n])"
  by (induction n) (simp_all add: kills_of_firing)

lemma requests_of_events: "filter is_request (events (generateSsg w parObj)) = []"
proof -
  have "\<not> handler_event e \<Longrightarrow> \<not> is_request e" for e
    by (cases e rule: handler_event.cases) simp_all
  with events_quiet[of w parObj] show ?thesis
    by (auto simp: list_ex_iff filter_empty_conv)
qed

lemma kills_of_events: "count_list (events (generateSsg w parObj)) Kill = 0"
  using events_quiet[of w parObj] by (auto simp: list_ex_iff count_list_0_iff)

lemma requests_of_run:
  "length (filter is_request (run_trace w parObj)) = firings w (armed (generateSsg w parObj))"
  by (simp add: run_trace_def requests_of_events callbacks_def requests_of_firings)

lemma kills_of_run:
  "count_list (run_trace w parObj) Kill
     = length (filter (\<lambda>i. axios_get w i \<noteq> None) [0..<firings w (armed (generateSsg w parObj))])"
  by (simp add: run_trace_def kills_of_events callbacks_def kills_of_firings)

subsection \<open>A numeric wait arms a timer\<close>

lemma and_then_Inr:
  assumes "and_then m f = (es, Inr y)"
  obtains es1 x es2 where "m = (es1, Inr x)" and "f x = (es2, Inr y)"
proof (cases m)
  case (Pair es1 r)
  show ?thesis
  proof (cases r)
    case (Inl e)
    with Pair assms show ?thesis by (simp add: and_then_def)
  next
    case (Inr x)
    obtain es2 r2 where fx: "f x = (es2, r2)" by (cases "f x")
    with Pair Inr assms have "r2 = Inr y" by (simp add: and_then_def)
    with Pair Inr fx that show ?thesis by simp
  qed
qed

lemma start_server_timer:
  assumes "start_server w cwd ssr port (Num n) = (es, Inr wt)"
  shows "wt = Timer n port"
proof -
  from assms have
    "and_then (console_assert (num_gt n 0) Invalid_Number_parameter) (\<lambda>_.
     and_then (spawnSrv w cwd ssr port (Str ''ignore'')) (\<lambda>srvProc.
     and_then (emit [SetTimeout n]) (\<lambda>_. ret (Timer n port)))) = (es, Inr wt)"
    by (simp add: start_server_def)
  then obtain es2 where
    "and_then (spawnSrv w cwd ssr port (Str ''ignore'')) (\<lambda>srvProc.
     and_then (emit [SetTimeout n]) (\<lambda>_. ret (Timer n port))) = (es2, Inr wt)"
    by (rule and_then_Inr)
  then obtain es3 where
    "and_then (emit [SetTimeout n]) (\<lambda>_. ret (Timer n port)) = (es3, Inr wt)"
    by (rule and_then_Inr)
  then show ?thesis by (simp add: and_then_def emit_def ret_def)
qed

lemma body_timer:
  assumes "get_prop par K_wait = Num n" and "generateSsg_body w par = (es, Inr wt)"
  shows "\<exists>port. wt = Timer n port"
proof -
  from assms(2) obtain es1 where
    "and_then (prepare_output w (get_prop par K_dir)) (\<lambda>_.
     and_then (resolve_port w (get_prop par K_port)) (\<lambda>port.
     and_then (check_port w port) (\<lambda>_.
     start_server w (get_prop par K_cwd) (get_prop (get_prop par K_dir) K_ssr) port
       (get_prop par K_wait)))) = (es1, Inr wt)"
    unfolding generateSsg_body_def by (rule and_then_Inr)
  then obtain es2 where
    "and_then (resolve_port w (get_prop par K_port)) (\<lambda>port.
     and_then (check_port w port) (\<lambda>_.
     start_server w (get_prop par K_cwd) (get_prop (get_prop par K_dir) K_ssr) port
       (get_prop par K_wait))) = (es2, Inr wt)"
    by (rule and_then_Inr)
  then obtain port es3 where
    "and_then (check_port w port) (\<lambda>_.
     start_server w (get_prop par K_cwd) (get_prop (get_prop par K_dir) K_ssr) port
       (get_prop par K_wait)) = (es3, Inr wt)"
    by (rule and_then_Inr)
  then obtain es4 where
    "start_server w (get_prop par K_cwd) (get_prop (get_prop par K_dir) K_ssr) port
       (get_prop par K_wait) = (es4, Inr wt)"
    by (rule and_then_Inr)
  with assms(1) show ?thesis by (auto dest: start_server_timer)
qed

lemma numeric_wait_arms_timer:
  assumes "get_prop (merged_params w parObj) K_wait = Num n"
      and "promise (generateSsg w parObj) = Resolve"
  shows "\<exists>port. armed (generateSsg w parObj) = Some (Timer n port)"
proof (cases rule: generateSsg_cases[of w parObj])
  case (rejected es e)
  with assms(2) show ?thesis by simp
next
  case (resolved es wt)
  with body_timer[OF assms(1) resolved(1)] show ?thesis by auto
qed

subsection \<open>The start of every run\<close>

lemma fst_and_then_Inr: "snd m = Inr x \<Longrightarrow> fst (and_then m f) = fst m @ fst (f x)"
  by (cases m) (simp add: and_then_def split: prod.splits)

lemma fst_and_then_prefix: "\<exists>rest. fst (and_then m f) = fst m @ rest"
proof (cases "snd m")
  case (Inl e)
  then show ?thesis by (cases m) (simp add: and_then_def)
next
  case (Inr x)
  then show ?thesis by (simp add: fst_and_then_Inr)
qed

lemma events_generateSsg:
  "events (generateSsg w parObj) = fst (generateSsg_body w (merged_params w parObj))"
  by (cases rule: generateSsg_cases[of w parObj]) simp_all

lemma check_ssr_object:
  "check_ssr w (Obj d) =
     ([Started (PathExists (get_prop (Obj d) K_ssr)),
       Fulfilled (PathExists (get_prop (Obj d) K_ssr))]
      @ (if pathExists w (get_prop (Obj d) K_ssr) then []
         else [AssertionFailed SSR_dist_path_does_not_exist]),
      Inr ())"
  by (simp add: check_ssr_def step_defs)

lemma prepare_output_prefix:
  "\<exists>rest. fst (prepare_output w dir) =
     [Started (EnsureDir (get_prop dir K_ssg)), Started (EmptyDir (get_prop dir K_ssg)),
      Started (Copy (get_prop dir K_static) (get_prop dir K_ssg))] @ rest"
  by (simp add: prepare_output_def step_defs)

lemma body_prefix:
  assumes "get_prop par K_dir = Obj d"
  shows "\<exists>rest. fst (generateSsg_body w par) =
     [Started (PathExists (get_prop (Obj d) K_ssr)),
      Fulfilled (PathExists (get_prop (Obj d) K_ssr))]
     @ (if pathExists w (get_prop (Obj d) K_ssr) then []
        else [AssertionFailed SSR_dist_path_does_not_exist])
     @ [Started (EnsureDir (get_prop (Obj d) K_ssg)),
        Started (EmptyDir (get_prop (Obj d) K_ssg)),
        Started (Copy (get_prop (Obj d) K_static) (get_prop (Obj d) K_ssg))]
     @ rest"
proof -
  let ?k = "\<lambda>_::unit.
     and_then (resolve_port w (get_prop par K_port)) (\<lambda>port.
     and_then (check_port w port) (\<lambda>_.
     start_server w (get_prop par K_cwd) (get_prop (get_prop par K_dir) K_ssr) port
       (get_prop par K_wait)))"
  obtain r1 where r1: "fst (and_then (prepare_output w (Obj d)) ?k)
      = fst (prepare_output w (Obj d)) @ r1"
    using fst_and_then_prefix by blast
  obtain r2 where r2: "fst (prepare_output w (Obj d)) =
     [Started (EnsureDir (get_prop (Obj d) K_ssg)), Started (EmptyDir (get_prop (Obj d) K_ssg)),
      Started (Copy (get_prop (Obj d) K_static) (get_prop (Obj d) K_ssg))] @ r2"
    using prepare_output_prefix by blast
  have "fst (generateSsg_body w par) =
      fst (check_ssr w (Obj d)) @ fst (and_then (prepare_output w (Obj d)) ?k)"
    unfolding generateSsg_body_def assms
    by (rule fst_and_then_Inr) (simp add: check_ssr_object)
  with r1 r2 show ?thesis by (simp add: check_ssr_object)
qed

section \<open>The claims\<close>

text \<open>
  C1, as amended. The claim is that the child is killed on every exit path of a run that
  reaches the spawn step, a rejected capture fetch included. The code calls
  \<^verbatim>\<open>srvProc.kill()\<close> only in the readiness handler, after \<^verbatim>\<open>await captureIndex(port)\<close>:
  a run kills the child exactly when the fetch of one of its handler invocations
  succeeds. When the fetch rejects, kill is skipped.
\<close>

theorem kill_iff_a_capture_succeeds:
  "(Kill \<in> set (run_trace w parObj))
     = (\<exists>i<firings w (armed (generateSsg w parObj)). axios_get w i \<noteq> None)"
  by (simp add: handler_event_in_trace kill_in_callbacks)

text \<open>
  C1, counterexample: with default parameters and a server that refuses the request, the
  run spawns the child and never kills it.
\<close>

theorem kill_skipped_when_fetch_rejects:
  "run_trace refusing_world Undefined =
     [Started (PathExists (Str ''dist/ssr'')), Fulfilled (PathExists (Str ''dist/ssr'')),
      Started (EnsureDir (Str ''dist/ssg'')), Started (EmptyDir (Str ''dist/ssg'')),
      Started (Copy (Str ''dist/ssr/www'') (Str ''dist/ssg'')),
      Fulfilled (EnsureDir (Str ''dist/ssg'')),
      Started (GetPort None), Fulfilled (GetPort None),
      Spawn (Str ''/app'') (Str ''dist/ssr'') (Num (Fin 8000)) (Str ''pipe''),
      On (Str ''data''), Return Resolve,
      Started (Get (Num (Fin 8000))), Rejected (Get (Num (Fin 8000)))]
   \<and> Kill \<notin> set (run_trace refusing_world Undefined)"
  by (simp add: step_defs body_defs handler_defs good_world_def refusing_world_def)

text \<open>
  C2, where the code departs from the claim. The claim is that the captured body is
  written to \<^verbatim>\<open>index.html\<close> in the configured \<^verbatim>\<open>dir.ssg\<close>. With \<^verbatim>\<open>dir.ssg = 'out'\<close> the
  output directory \<^verbatim>\<open>out\<close> is prepared, and the body is written to the fixed path
  \<^verbatim>\<open>dist/ssg/index.html\<close>.
\<close>

theorem capture_ignores_configured_output_dir:
  "run_trace good_world
     (Obj [(''dir'', Obj [(''ssr'', Str ''dist/ssr''), (''static'', Str ''dist/ssr/www''),
                          (''ssg'', Str ''out'')])]) =
     [Started (PathExists (Str ''dist/ssr'')), Fulfilled (PathExists (Str ''dist/ssr'')),
      Started (EnsureDir (Str ''out'')), Started (EmptyDir (Str ''out'')),
      Started (Copy (Str ''dist/ssr/www'') (Str ''out'')),
      Fulfilled (EnsureDir (Str ''out'')),
      Started (GetPort None), Fulfilled (GetPort None),
      Spawn (Str ''/app'') (Str ''dist/ssr'') (Num (Fin 8000)) (Str ''pipe''),
      On (Str ''data''), Return Resolve,
      Started (Get (Num (Fin 8000))), Fulfilled (Get (Num (Fin 8000))),
      Started (OutputFile ''dist/ssg/index.html'' ''<html></html>''), Kill,
      Fulfilled (OutputFile ''dist/ssg/index.html'' ''<html></html>'')]"
  by (simp add: step_defs body_defs handler_defs good_world_def)

text \<open>
  C3, as amended. The claim is that a failed fetch or a failed write rejects the promise
  of \<^verbatim>\<open>generateSsg\<close>. The capture runs in a handler that is called after that promise
  has settled, and nothing waits on the handler or on the write: whenever the fetch or
  the write of a run fails, the promise \<^verbatim>\<open>generateSsg\<close> returned is fulfilled, and the
  failure is left as an unhandled rejection.
\<close>

theorem capture_failure_not_reported:
  assumes "Rejected (Get p) \<in> set (run_trace w parObj)
         \<or> Rejected (OutputFile f d) \<in> set (run_trace w parObj)"
  shows "promise (generateSsg w parObj) = Resolve"
proof -
  from assms have "\<exists>e. e \<in> set (callbacks w (armed (generateSsg w parObj)))"
    using handler_event_in_trace[of "Rejected (Get p)" w parObj]
          handler_event_in_trace[of "Rejected (OutputFile f d)" w parObj]
    by auto
  then have "armed (generateSsg w parObj) \<noteq> None"
    by (cases "armed (generateSsg w parObj)") (auto simp: callbacks_def)
  with armed_iff_resolved[of w parObj] show ?thesis by blast
qed

text \<open>C3, witness: the write fails, the promise is fulfilled.\<close>

theorem capture_failure_not_reported_witness:
  "Rejected (OutputFile ''dist/ssg/index.html'' ''<html></html>'')
     \<in> set (run_trace (good_world\<lparr>outputFile := (\<lambda>i. False)\<rparr>) Undefined)
   \<and> promise (generateSsg (good_world\<lparr>outputFile := (\<lambda>i. False)\<rparr>) Undefined) = Resolve"
proof -
  have h: "Rejected (OutputFile ''dist/ssg/index.html'' ''<html></html>'')
     \<in> set (run_trace (good_world\<lparr>outputFile := (\<lambda>i. False)\<rparr>) Undefined)"
    by (simp add: step_defs body_defs handler_defs good_world_def)
  with capture_failure_not_reported[of _ _ _ "''dist/ssg/index.html''" "''<html></html>''"]
  show ?thesis by blast
qed

text \<open>
  C3, counterexample: the server refuses the request, and the promise of \<^verbatim>\<open>generateSsg\<close>
  is fulfilled, not rejected.
\<close>

theorem fetch_failure_leaves_promise_resolved:
  "Rejected (Get (Num (Fin 8000))) \<in> set (run_trace refusing_world Undefined)
   \<and> promise (generateSsg refusing_world Undefined) = Resolve"
  by (simp add: step_defs body_defs handler_defs good_world_def refusing_world_def)

text \<open>
  C4, where the code departs from the claim. The claim is that a missing \<^verbatim>\<open>dir.ssr\<close>
  fails the operation before anything is spawned or the output directory is touched.
  \<^verbatim>\<open>assert\<close> is \<^verbatim>\<open>console.assert\<close>: the message is printed and the run goes on, empties
  \<^verbatim>\<open>dir.ssg\<close>, spawns the child, and the promise is fulfilled.
\<close>

theorem missing_ssr_dir_still_runs:
  "run_trace (good_world\<lparr>pathExists := (\<lambda>p. False)\<rparr>) Undefined =
     [Started (PathExists (Str ''dist/ssr'')), Fulfilled (PathExists (Str ''dist/ssr'')),
      AssertionFailed SSR_dist_path_does_not_exist,
      Started (EnsureDir (Str ''dist/ssg'')), Started (EmptyDir (Str ''dist/ssg'')),
      Started (Copy (Str ''dist/ssr/www'') (Str ''dist/ssg'')),
      Fulfilled (EnsureDir (Str ''dist/ssg'')),
      Started (GetPort None), Fulfilled (GetPort None),
      Spawn (Str ''/app'') (Str ''dist/ssr'') (Num (Fin 8000)) (Str ''pipe''),
      On (Str ''data''), Return Resolve,
      Started (Get (Num (Fin 8000))), Fulfilled (Get (Num (Fin 8000))),
      Started (OutputFile ''dist/ssg/index.html'' ''<html></html>''), Kill,
      Fulfilled (OutputFile ''dist/ssg/index.html'' ''<html></html>'')]"
  by (simp add: step_defs body_defs handler_defs good_world_def)

text \<open>
  C5, where the code departs from the claim. The claim is that a port outside 1 to 65535
  fails the operation before the spawn. With \<^verbatim>\<open>port: 70000\<close> and \<^verbatim>\<open>wait: 100\<close> the
  message \<^verbatim>\<open>No available ports\<close> is printed by \<^verbatim>\<open>console.assert\<close> and the child is
  spawned with port 70000.
\<close>

theorem port_out_of_range_still_spawns:
  "run_trace good_world (Obj [(''port'', Num (Fin 70000)), (''wait'', Num (Fin 100))]) =
     [Started (PathExists (Str ''dist/ssr'')), Fulfilled (PathExists (Str ''dist/ssr'')),
      Started (EnsureDir (Str ''dist/ssg'')), Started (EmptyDir (Str ''dist/ssg'')),
      Started (Copy (Str ''dist/ssr/www'') (Str ''dist/ssg'')),
      Fulfilled (EnsureDir (Str ''dist/ssg'')),
      AssertionFailed No_available_ports,
      Spawn (Str ''/app'') (Str ''dist/ssr'') (Num (Fin 70000)) (Str ''ignore''),
      SetTimeout (Fin 100), Return Resolve,
      Started (Get (Num (Fin 70000))), Fulfilled (Get (Num (Fin 70000))),
      Started (OutputFile ''dist/ssg/index.html'' ''<html></html>''), Kill,
      Fulfilled (OutputFile ''dist/ssg/index.html'' ''<html></html>'')]"
  by (simp add: step_defs body_defs handler_defs good_world_def)

text \<open>
  C6, as amended. The claim is that a numeric environment port wins over every
  configured \<^verbatim>\<open>port\<close>. The environment is consulted only under \<^verbatim>\<open>!Number(port)\<close>:
  when \<^verbatim>\<open>envPort\<close> is a number other than zero, the resolved port is \<^verbatim>\<open>envPort\<close> unless
  the configured \<^verbatim>\<open>port\<close> converts to a number other than zero, and then it is the
  configured \<^verbatim>\<open>port\<close>. So the environment wins over an absent port and over a range
  \<^verbatim>\<open>[low, high]\<close>, and loses to an explicit positive integer.
\<close>

theorem resolve_port_precedence:
  assumes "truthy (envPort w)"
  shows "resolve_port w port =
           ([], Inr (if truthy (to_number (str_number w) port) then port
                     else Num (envPort w)))"
  using assms by (simp add: resolve_port_def ret_def)

text \<open>C6, witness: \<^verbatim>\<open>PORT=8080\<close> against a range and against no port.\<close>

theorem resolve_port_precedence_witness:
  "truthy (envPort env_world)
   \<and> resolve_port env_world (Arr [Num (Fin 5000), Num (Fin 5010)]) = ([], Inr (Num (Fin 8080)))
   \<and> resolve_port env_world Undefined = ([], Inr (Num (Fin 8080)))"
  using resolve_port_precedence[of env_world "Arr [Num (Fin 5000), Num (Fin 5010)]"]
        resolve_port_precedence[of env_world Undefined]
  by (simp add: good_world_def env_world_def)

text \<open>
  C6, counterexample: \<^verbatim>\<open>PORT=8080\<close> against \<^verbatim>\<open>port: 3000\<close>; the child is spawned with
  port 3000.
\<close>

theorem explicit_port_beats_environment:
  "envPort env_world = Fin 8080
   \<and> resolve_port env_world (Num (Fin 3000)) = ([], Inr (Num (Fin 3000)))
   \<and> Spawn (Str ''/app'') (Str ''dist/ssr'') (Num (Fin 3000)) (Str ''pipe'')
       \<in> set (run_trace env_world (Obj [(''port'', Num (Fin 3000))]))"
  by (simp add: step_defs body_defs handler_defs good_world_def env_world_def)

text \<open>
  C7, where the code departs from the claim. The claim is that \<^verbatim>\<open>dir.ssg\<close> is ensured,
  then emptied, then filled with the copy of \<^verbatim>\<open>dir.static\<close>, each step after the
  previous one has completed, and all before the spawn. Up to the moment the promise
  settles, \<^verbatim>\<open>emptyDir\<close> and \<^verbatim>\<open>copy\<close> are started before \<^verbatim>\<open>ensureDir\<close> has completed, and
  the spawn waits for \<^verbatim>\<open>ensureDir\<close> alone: nothing waits for \<^verbatim>\<open>emptyDir\<close> or \<^verbatim>\<open>copy\<close>.
\<close>

theorem preparation_not_awaited:
  "events (generateSsg good_world Undefined) =
     [Started (PathExists (Str ''dist/ssr'')), Fulfilled (PathExists (Str ''dist/ssr'')),
      Started (EnsureDir (Str ''dist/ssg'')), Started (EmptyDir (Str ''dist/ssg'')),
      Started (Copy (Str ''dist/ssr/www'') (Str ''dist/ssg'')),
      Fulfilled (EnsureDir (Str ''dist/ssg'')),
      Started (GetPort None), Fulfilled (GetPort None),
      Spawn (Str ''/app'') (Str ''dist/ssr'') (Num (Fin 8000)) (Str ''pipe''),
      On (Str ''data'')]"
  by (simp add: step_defs body_defs good_world_def)

text \<open>
  C8, as amended. The claim is that the watcher is one-shot: one request and one kill
  per run, whatever the child prints. Under a numeric \<^verbatim>\<open>wait\<close> the watcher is a
  timer, which fires once: every run with a numeric \<^verbatim>\<open>wait\<close> whose promise is fulfilled
  (the body got as far as setting the timer) issues exactly one request, and calls
  \<^verbatim>\<open>srvProc.kill()\<close> exactly once when that request succeeds and not at all when it
  fails. Nothing is stated for the listeners of \<^verbatim>\<open>'stdout'\<close> and \<^verbatim>\<open>'ipc'\<close>.
\<close>

theorem timer_is_one_shot:
  assumes "get_prop (merged_params w parObj) K_wait = Num n"
      and "promise (generateSsg w parObj) = Resolve"
  shows "firings w (armed (generateSsg w parObj)) = 1
       \<and> length (filter is_request (run_trace w parObj)) = 1
       \<and> count_list (run_trace w parObj) Kill = (if axios_get w 0 = None then 0 else 1)"
proof -
  from numeric_wait_arms_timer[OF assms] obtain port where
    "armed (generateSsg w parObj) = Some (Timer n port)" ..
  then have one: "firings w (armed (generateSsg w parObj)) = 1" by simp
  then show ?thesis by (simp add: requests_of_run kills_of_run)
qed

text \<open>C8, witness: \<^verbatim>\<open>wait: 100\<close> on the machine where everything is in place.\<close>

theorem timer_is_one_shot_witness:
  "get_prop (merged_params good_world (Obj [(''wait'', Num (Fin 100))])) K_wait = Num (Fin 100)
   \<and> promise (generateSsg good_world (Obj [(''wait'', Num (Fin 100))])) = Resolve
   \<and> length (filter is_request (run_trace good_world (Obj [(''wait'', Num (Fin 100))]))) = 1
   \<and> count_list (run_trace good_world (Obj [(''wait'', Num (Fin 100))])) Kill = 1"
proof -
  have a: "get_prop (merged_params good_world (Obj [(''wait'', Num (Fin 100))])) K_wait
             = Num (Fin 100)"
    by (simp add: merged_params_def defaultParam_def)
  have b: "promise (generateSsg good_world (Obj [(''wait'', Num (Fin 100))])) = Resolve"
    by (simp add: step_defs body_defs good_world_def)
  have c: "axios_get good_world 0 \<noteq> None"
    by (simp add: good_world_def)
  from timer_is_one_shot[OF a b] a b c show ?thesis by simp
qed

text \<open>
  C8, counterexample: under \<^verbatim>\<open>wait: 100\<close>, with a server that refuses the request, the
  child is spawned, the timer fires once, one request is issued, and the child is not
  killed at all, where the claim says exactly once.
\<close>

theorem timer_run_without_kill:
  "run_trace refusing_world (Obj [(''wait'', Num (Fin 100))]) =
     [Started (PathExists (Str ''dist/ssr'')), Fulfilled (PathExists (Str ''dist/ssr'')),
      Started (EnsureDir (Str ''dist/ssg'')), Started (EmptyDir (Str ''dist/ssg'')),
      Started (Copy (Str ''dist/ssr/www'') (Str ''dist/ssg'')),
      Fulfilled (EnsureDir (Str ''dist/ssg'')),
      Started (GetPort None), Fulfilled (GetPort None),
      Spawn (Str ''/app'') (Str ''dist/ssr'') (Num (Fin 8000)) (Str ''ignore''),
      SetTimeout (Fin 100), Return Resolve,
      Started (Get (Num (Fin 8000))), Rejected (Get (Num (Fin 8000)))]
   \<and> count_list (run_trace refusing_world (Obj [(''wait'', Num (Fin 100))])) Kill = 0"
  by (simp add: step_defs body_defs handler_defs good_world_def refusing_world_def)

text \<open>
  C9, where the code departs from the claim. The claim is that under \<^verbatim>\<open>wait: 'ipc'\<close> the
  watcher is registered without a fault and fires on the first message. The child is
  spawned with \<^verbatim>\<open>'ipc'\<close> as the \<^verbatim>\<open>stdio\<close> entry of its standard output, so
  \<^verbatim>\<open>srvProc.stdout\<close> is \<^verbatim>\<open>null\<close> and \<^verbatim>\<open>srvProc.stdout.on\<close> throws: the promise is
  rejected, no watcher is registered, and the child is left running.
\<close>

theorem ipc_watcher_faults:
  "run_trace good_world (Obj [(''wait'', Str ''ipc'')]) =
     [Started (PathExists (Str ''dist/ssr'')), Fulfilled (PathExists (Str ''dist/ssr'')),
      Started (EnsureDir (Str ''dist/ssg'')), Started (EmptyDir (Str ''dist/ssg'')),
      Started (Copy (Str ''dist/ssr/www'') (Str ''dist/ssg'')),
      Fulfilled (EnsureDir (Str ''dist/ssg'')),
      Started (GetPort None), Fulfilled (GetPort None),
      Spawn (Str ''/app'') (Str ''dist/ssr'') (Num (Fin 8000)) (Str ''ipc''),
      Return (Reject (TypeError ''Cannot read property on of null''))]
   \<and> armed (generateSsg good_world (Obj [(''wait'', Str ''ipc'')])) = None"
  by (simp add: step_defs body_defs handler_defs good_world_def)

text \<open>
  C10. \<^verbatim>\<open>generateSsg\<close> merges with a shallow, top-level spread: its run is the run of
  \<^verbatim>\<open>_generateSsg\<close> on the object whose \<^verbatim>\<open>cwd\<close>, \<^verbatim>\<open>port\<close> and \<^verbatim>\<open>wait\<close> are the
  caller's where the caller has the key and the defaults otherwise, and whose \<^verbatim>\<open>dir\<close>
  is the caller's \<^verbatim>\<open>dir\<close> object as it is. The default \<^verbatim>\<open>dir\<close> is replaced wholesale:
  the run checks, empties and copies the paths of the caller's object alone, and a key
  that object omits reads \<^verbatim>\<open>undefined\<close>, so the defaults \<^verbatim>\<open>dist/ssr\<close>,
  \<^verbatim>\<open>dist/ssr/www\<close> and \<^verbatim>\<open>dist/ssg\<close> are not applied.
\<close>

theorem generateSsg_dir_replaced_wholesale:
  assumes "get_prop (Obj ps) K_dir = Obj d"
  shows "generateSsg w (Obj ps) =
           internal_generateSsg w
             (Obj [(''cwd'', case map_of (rev ps) ''cwd'' of
                               None \<Rightarrow> Str (process_cwd w) | Some v \<Rightarrow> v),
                   (''port'', case map_of (rev ps) ''port'' of
                                None \<Rightarrow> Undefined | Some v \<Rightarrow> v),
                   (''wait'', case map_of (rev ps) ''wait'' of
                                None \<Rightarrow> Str ''stdout'' | Some v \<Rightarrow> v),
                   (''dir'', Obj d)])
       \<and> (\<exists>rest. events (generateSsg w (Obj ps)) =
             [Started (PathExists (get_prop (Obj d) K_ssr)),
              Fulfilled (PathExists (get_prop (Obj d) K_ssr))]
             @ (if pathExists w (get_prop (Obj d) K_ssr) then []
                else [AssertionFailed SSR_dist_path_does_not_exist])
             @ [Started (EnsureDir (get_prop (Obj d) K_ssg)),
                Started (EmptyDir (get_prop (Obj d) K_ssg)),
                Started (Copy (get_prop (Obj d) K_static) (get_prop (Obj d) K_ssg))]
             @ rest)
       \<and> (\<forall>k. map_of (rev d) (key_name k) = None \<longrightarrow> get_prop (Obj d) k = Undefined)"
proof -
  from assms have dir: "map_of (rev ps) ''dir'' = Some (Obj d)"
    by (simp split: option.splits)
  have merged: "get_prop (merged_params w (Obj ps)) k =
      (case map_of (rev ps) (key_name k) of
         None \<Rightarrow> get_prop (Obj (defaultParam w)) k | Some v \<Rightarrow> v)" for k
    unfolding merged_params_def own_props.simps by (rule get_prop_append)
  have "generateSsg_body w (merged_params w (Obj ps)) =
        generateSsg_body w
          (Obj [(''cwd'', case map_of (rev ps) ''cwd'' of
                            None \<Rightarrow> Str (process_cwd w) | Some v \<Rightarrow> v),
                (''port'', case map_of (rev ps) ''port'' of
                             None \<Rightarrow> Undefined | Some v \<Rightarrow> v),
                (''wait'', case map_of (rev ps) ''wait'' of
                             None \<Rightarrow> Str ''stdout'' | Some v \<Rightarrow> v),
                (''dir'', Obj d)])"
    by (simp add: generateSsg_body_def merged dir defaultParam_def cong: option.case_cong)
  then have run: "generateSsg w (Obj ps) =
           internal_generateSsg w
             (Obj [(''cwd'', case map_of (rev ps) ''cwd'' of
                               None \<Rightarrow> Str (process_cwd w) | Some v \<Rightarrow> v),
                   (''port'', case map_of (rev ps) ''port'' of
                                None \<Rightarrow> Undefined | Some v \<Rightarrow> v),
                   (''wait'', case map_of (rev ps) ''wait'' of
                                None \<Rightarrow> Str ''stdout'' | Some v \<Rightarrow> v),
                   (''dir'', Obj d)])"
    by (simp add: generateSsg_def internal_generateSsg_def merged_params_def)
  from dir have "get_prop (merged_params w (Obj ps)) K_dir = Obj d"
    by (simp add: merged)
  from body_prefix[OF this, of w] have start:
    "\<exists>rest. events (generateSsg w (Obj ps)) =
             [Started (PathExists (get_prop (Obj d) K_ssr)),
              Fulfilled (PathExists (get_prop (Obj d) K_ssr))]
             @ (if pathExists w (get_prop (Obj d) K_ssr) then []
                else [AssertionFailed SSR_dist_path_does_not_exist])
             @ [Started (EnsureDir (get_prop (Obj d) K_ssg)),
                Started (EmptyDir (get_prop (Obj d) K_ssg)),
                Started (Copy (get_prop (Obj d) K_static) (get_prop (Obj d) K_ssg))]
             @ rest"
    by (simp only: events_generateSsg)
  have "\<forall>k. map_of (rev d) (key_name k) = None \<longrightarrow> get_prop (Obj d) k = Undefined"
    by simp
  with run start show ?thesis by blast
qed

text \<open>
  C10, witness: \<^verbatim>\<open>generateSsg({ dir: { ssg: 'out' } })\<close> where \<^verbatim>\<open>dist/ssr\<close> is the only
  path that exists and the child prints nothing. \<^verbatim>\<open>dir.ssr\<close> and \<^verbatim>\<open>dir.static\<close> are
  \<^verbatim>\<open>undefined\<close> in the run, while \<^verbatim>\<open>cwd\<close> and \<^verbatim>\<open>wait\<close> have their defaults.
\<close>

theorem generateSsg_dir_replaced_wholesale_witness:
  "get_prop (Obj [(''dir'', Obj [(''ssg'', Str ''out'')])]) K_dir = Obj [(''ssg'', Str ''out'')]
   \<and> generateSsg silent_world (Obj [(''dir'', Obj [(''ssg'', Str ''out'')])]) =
       \<lparr>promise = Resolve,
        events =
          [Started (PathExists Undefined), Fulfilled (PathExists Undefined),
           AssertionFailed SSR_dist_path_does_not_exist,
           Started (EnsureDir (Str ''out'')), Started (EmptyDir (Str ''out'')),
           Started (Copy Undefined (Str ''out'')),
           Fulfilled (EnsureDir (Str ''out'')),
           Started (GetPort None), Fulfilled (GetPort None),
           Spawn (Str ''/app'') Undefined (Num (Fin 8000)) (Str ''pipe''),
           On (Str ''data'')],
        armed = Some (Listener (Str ''data'') (Num (Fin 8000)))\<rparr>"
proof -
  have h: "get_prop (Obj [(''dir'', Obj [(''ssg'', Str ''out'')])]) K_dir
             = Obj [(''ssg'', Str ''out'')]"
    by simp
  from generateSsg_dir_replaced_wholesale[OF h, of silent_world]
  have "generateSsg silent_world (Obj [(''dir'', Obj [(''ssg'', Str ''out'')])]) =
          internal_generateSsg silent_world
            (Obj [(''cwd'', Str (process_cwd silent_world)), (''port'', Undefined),
                  (''wait'', Str ''stdout''), (''dir'', Obj [(''ssg'', Str ''out'')])])"
    by simp
  with h show ?thesis
    by (simp add: step_defs computed_get_def check_ssr_def prepare_output_def
          resolve_port_def check_port_def spawnSrv_def stdout_on_def start_server_def
          generateSsg_body_def internal_generateSsg_def good_world_def silent_world_def)
qed

end
